theory Spec2Isabelle
  imports Complex_Main "HOL-Library.Sublist"
begin

section \<open>The LLM bridge of galah (package llm, file pkg/llm/llm.go)\<close>

text \<open>
  Go strings are byte sequences; they are modelled as \<^typ>\<open>string\<close>, a list of 8-bit
  characters. Text outside ASCII is present as its UTF-8 bytes.
\<close>

subsection \<open>cleanResponse: the regular expression pass\<close>

text \<open>
  \<^verbatim>\<open>re := regexp.MustCompile("^```(?:json)?|```")\<close>

  \<open>match_at bos s\<close> is the length of the match of this expression that begins at the
  head of \<open>s\<close>, where \<open>bos\<close> says that the head of \<open>s\<close> is the beginning of the text
  (the only place where \<^verbatim>\<open>^\<close> matches; the expression has no multi-line flag).
  Go prefers the first alternative and the optional group is greedy.
\<close>

definition fence :: string where
  "fence = ''```''"

definition match_at :: "bool \<Rightarrow> string \<Rightarrow> nat option" where
  "match_at bos s =
     (if bos \<and> prefix fence s then
        (if prefix ''json'' (drop 3 s) then Some 7 else Some 3)
      else if prefix fence s then Some 3
      else None)"

text \<open>
  \<^verbatim>\<open>cleaned := re.ReplaceAllString(input, "")\<close>

  Every match is deleted, the matches being searched from left to right, each search
  resuming behind the previous match; bytes outside a match are copied.
\<close>

function ReplaceAllString :: "bool \<Rightarrow> string \<Rightarrow> string" where
  "ReplaceAllString bos [] = []"
| "ReplaceAllString bos (c # cs) =
     (case match_at bos (c # cs) of
        Some n \<Rightarrow> ReplaceAllString False (drop n (c # cs))
      | None \<Rightarrow> c # ReplaceAllString False cs)"
  by pat_completeness auto
termination
  by (relation "measure (\<lambda>(bos, s). length s)")
     (auto simp: match_at_def split: if_splits)

subsection \<open>strings.TrimSpace\<close>

text \<open>
  TrimSpace removes all leading and trailing white space, as defined by Unicode
  (\<^verbatim>\<open>unicode.IsSpace\<close>): U+0009 to U+000D, U+0020, U+0085, U+00A0, U+1680,
  U+2000 to U+200A, U+2028, U+2029, U+202F, U+205F and U+3000. \<open>space_runes\<close> lists
  their UTF-8 encodings. A byte that does not begin a well-formed encoding decodes to
  U+FFFD, which is no white space, so the text begins (ends) with a white space rune
  exactly when it begins (ends) with one of these byte sequences.
\<close>

definition space_runes :: "string list" where
  "space_runes =
     [[CHR 0x09], [CHR 0x0A], [CHR 0x0B], [CHR 0x0C], [CHR 0x0D], [CHR 0x20],
      [CHR 0xC2, CHR 0x85], [CHR 0xC2, CHR 0xA0],
      [CHR 0xE1, CHR 0x9A, CHR 0x80],
      [CHR 0xE2, CHR 0x80, CHR 0x80], [CHR 0xE2, CHR 0x80, CHR 0x81],
      [CHR 0xE2, CHR 0x80, CHR 0x82], [CHR 0xE2, CHR 0x80, CHR 0x83],
      [CHR 0xE2, CHR 0x80, CHR 0x84], [CHR 0xE2, CHR 0x80, CHR 0x85],
      [CHR 0xE2, CHR 0x80, CHR 0x86], [CHR 0xE2, CHR 0x80, CHR 0x87],
      [CHR 0xE2, CHR 0x80, CHR 0x88], [CHR 0xE2, CHR 0x80, CHR 0x89],
      [CHR 0xE2, CHR 0x80, CHR 0x8A],
      [CHR 0xE2, CHR 0x80, CHR 0xA8], [CHR 0xE2, CHR 0x80, CHR 0xA9],
      [CHR 0xE2, CHR 0x80, CHR 0xAF],
      [CHR 0xE2, CHR 0x81, CHR 0x9F],
      [CHR 0xE3, CHR 0x80, CHR 0x80]]"

text \<open>
  \<open>trim_runes ps s\<close> drops from the front of \<open>s\<close>, as long as there is one, a
  non-empty sequence of \<open>ps\<close> that \<open>s\<close> begins with.
\<close>

function trim_runes :: "string list \<Rightarrow> string \<Rightarrow> string" where
  "trim_runes ps s =
     (case find (\<lambda>p. p \<noteq> [] \<and> prefix p s) ps of
        None \<Rightarrow> s
      | Some p \<Rightarrow> trim_runes ps (drop (length p) s))"
  by pat_completeness auto
termination
proof (relation "measure (\<lambda>(ps, s). length s)")
  fix ps :: "string list" and s p :: string
  assume "find (\<lambda>p. p \<noteq> [] \<and> prefix p s) ps = Some p"
  then have "p \<noteq> []" and "prefix p s"
    by (auto simp: find_Some_iff)
  then show "((ps, drop (length p) s), (ps, s)) \<in> measure (\<lambda>(ps, s). length s)"
    by (cases s) (auto simp: prefix_def)
qed simp

declare trim_runes.simps [simp del]

definition TrimLeftSpace :: "string \<Rightarrow> string" where
  "TrimLeftSpace s = trim_runes space_runes s"

definition TrimRightSpace :: "string \<Rightarrow> string" where
  "TrimRightSpace s = rev (trim_runes (map rev space_runes) (rev s))"

definition TrimSpace :: "string \<Rightarrow> string" where
  "TrimSpace s = TrimRightSpace (TrimLeftSpace s)"

subsection \<open>cleanResponse\<close>

definition cleanResponse :: "string \<Rightarrow> string" where
  "cleanResponse input = TrimSpace (ReplaceAllString True input)"

subsection \<open>encoding/json: the syntax of a JSON text\<close>

text \<open>
  \<^verbatim>\<open>json.Valid\<close> and \<^verbatim>\<open>json.Unmarshal\<close> belong to Go's standard library. The
  library scans the text byte by byte with a state machine and a stack of open objects
  and arrays. The model has the same machine in two layers: \<open>lex\<close> has the states
  inside a string, a number and a literal and yields tokens, \<open>parse_tokens\<close> has the
  states between the values and the stack, and builds the value that Unmarshal decodes.
\<close>

datatype json =
    JNull
  | JBool bool
  | JNumber string
  | JString string
  | JArray "json list"
  | JObject "(string \<times> json) list"

datatype token =
    TLBrace | TRBrace | TLBracket | TRBracket | TColon | TComma
  | TString string | TNumber string | TTrue | TFalse | TNull

datatype numstate =
  stateNeg | state1 | state0 | stateDot | stateDot0 | stateE | stateESign | stateE0

datatype lexstate =
    LBegin
  | LInString string
  | LInStringEsc string
  | LInStringEscU nat string
  | LNumber numstate string
  | LLiteral string token

definition isSpace :: "char \<Rightarrow> bool" where
  "isSpace c = (c = CHR 0x20 \<or> c = CHR 0x09 \<or> c = CHR 0x0D \<or> c = CHR 0x0A)"

definition isDigit :: "char \<Rightarrow> bool" where
  "isDigit c = (c \<in> set ''0123456789'')"

definition isHex :: "char \<Rightarrow> bool" where
  "isHex c = (c \<in> set ''0123456789abcdefABCDEF'')"

text \<open>The states of a number: \<open>None\<close> when the byte cannot continue the number.\<close>

fun num_step :: "numstate \<Rightarrow> char \<Rightarrow> numstate option" where
  "num_step stateNeg c =
     (if c = CHR ''0'' then Some state0
      else if isDigit c then Some state1 else None)"
| "num_step state1 c =
     (if isDigit c then Some state1
      else if c = CHR ''.'' then Some stateDot
      else if c = CHR ''e'' \<or> c = CHR ''E'' then Some stateE else None)"
| "num_step state0 c =
     (if c = CHR ''.'' then Some stateDot
      else if c = CHR ''e'' \<or> c = CHR ''E'' then Some stateE else None)"
| "num_step stateDot c = (if isDigit c then Some stateDot0 else None)"
| "num_step stateDot0 c =
     (if isDigit c then Some stateDot0
      else if c = CHR ''e'' \<or> c = CHR ''E'' then Some stateE else None)"
| "num_step stateE c =
     (if c = CHR ''+'' \<or> c = CHR ''-'' then Some stateESign
      else if isDigit c then Some stateE0 else None)"
| "num_step stateESign c = (if isDigit c then Some stateE0 else None)"
| "num_step stateE0 c = (if isDigit c then Some stateE0 else None)"

text \<open>The states in which the number read so far is complete.\<close>

fun num_final :: "numstate \<Rightarrow> bool" where
  "num_final state1 = True"
| "num_final state0 = True"
| "num_final stateDot0 = True"
| "num_final stateE0 = True"
| "num_final _ = False"

text \<open>The first byte of a token (stateBeginValue and the punctuation).\<close>

definition begin_token :: "char \<Rightarrow> (token list \<times> lexstate) option" where
  "begin_token c =
     (if isSpace c then Some ([], LBegin)
      else if c = CHR ''{'' then Some ([TLBrace], LBegin)
      else if c = CHR ''}'' then Some ([TRBrace], LBegin)
      else if c = CHR ''['' then Some ([TLBracket], LBegin)
      else if c = CHR '']'' then Some ([TRBracket], LBegin)
      else if c = CHR '':'' then Some ([TColon], LBegin)
      else if c = CHR '','' then Some ([TComma], LBegin)
      else if c = CHR 0x22 then Some ([], LInString [])
      else if c = CHR ''-'' then Some ([], LNumber stateNeg [c])
      else if c = CHR ''0'' then Some ([], LNumber state0 [c])
      else if isDigit c then Some ([], LNumber state1 [c])
      else if c = CHR ''t'' then Some ([], LLiteral ''rue'' TTrue)
      else if c = CHR ''f'' then Some ([], LLiteral ''alse'' TFalse)
      else if c = CHR ''n'' then Some ([], LLiteral ''ull'' TNull)
      else None)"

text \<open>
  One byte. The text of a string and of a number is collected in reverse. A string
  token holds the bytes between the quotes as they are written, escapes included.
\<close>

fun lex_step :: "lexstate \<Rightarrow> char \<Rightarrow> (token list \<times> lexstate) option" where
  "lex_step LBegin c = begin_token c"
| "lex_step (LInString acc) c =
     (if c = CHR 0x22 then Some ([TString (rev acc)], LBegin)
      else if c = CHR 0x5C then Some ([], LInStringEsc (c # acc))
      else if (of_char c :: nat) < 0x20 then None
      else Some ([], LInString (c # acc)))"
| "lex_step (LInStringEsc acc) c =
     (if c \<in> set [CHR ''b'', CHR ''f'', CHR ''n'', CHR ''r'', CHR ''t'',
                   CHR 0x5C, CHR ''/'', CHR 0x22]
      then Some ([], LInString (c # acc))
      else if c = CHR ''u'' then Some ([], LInStringEscU 4 (c # acc))
      else None)"
| "lex_step (LInStringEscU n acc) c =
     (if isHex c then
        (if n \<le> 1 then Some ([], LInString (c # acc))
         else Some ([], LInStringEscU (n - 1) (c # acc)))
      else None)"
| "lex_step (LNumber ns acc) c =
     (case num_step ns c of
        Some ns' \<Rightarrow> Some ([], LNumber ns' (c # acc))
      | None \<Rightarrow>
          if num_final ns then
            (case begin_token c of
               None \<Rightarrow> None
             | Some (ts, st) \<Rightarrow> Some (TNumber (rev acc) # ts, st))
          else None)"
| "lex_step (LLiteral rest tok) c =
     (case rest of
        [] \<Rightarrow> None
      | r # rs \<Rightarrow>
          if c = r then
            (if rs = [] then Some ([tok], LBegin) else Some ([], LLiteral rs tok))
          else None)"

text \<open>The end of the text: only between tokens, or behind a complete number.\<close>

fun lex_eof :: "lexstate \<Rightarrow> token list option" where
  "lex_eof LBegin = Some []"
| "lex_eof (LNumber ns acc) = (if num_final ns then Some [TNumber (rev acc)] else None)"
| "lex_eof _ = None"

fun lex :: "lexstate \<Rightarrow> string \<Rightarrow> token list option" where
  "lex st [] = lex_eof st"
| "lex st (c # cs) =
     (case lex_step st c of
        None \<Rightarrow> None
      | Some (ts, st') \<Rightarrow>
          (case lex st' cs of None \<Rightarrow> None | Some us \<Rightarrow> Some (ts @ us)))"

text \<open>
  Decoding the text of a string (unquote). The lexer has accepted the escapes, so a
  backslash is followed by one of \<^verbatim>\<open>" \ / b f n r t\<close> or by \<^verbatim>\<open>u\<close> and four
  hexadecimal digits. A \<^verbatim>\<open>\u\<close> escape is a UTF-16 code unit: a surrogate pair is
  one rune, a surrogate alone is U+FFFD. Bytes from 0x80 on are copied (Go replaces
  ill-formed UTF-8 among them by U+FFFD, three non-ASCII bytes).
\<close>

definition hexval :: "char \<Rightarrow> nat" where
  "hexval c =
     (let n = of_char c in
      if isDigit c then n - 48
      else if c \<in> set ''abcdef'' then n - 87
      else n - 55)"

definition getu4 :: "string \<Rightarrow> nat option" where
  "getu4 s =
     (case s of
        b # u # h1 # h2 # h3 # h4 # _ \<Rightarrow>
          if b = CHR 0x5C \<and> u = CHR ''u'' \<and> isHex h1 \<and> isHex h2 \<and> isHex h3 \<and> isHex h4
          then Some (((hexval h1 * 16 + hexval h2) * 16 + hexval h3) * 16 + hexval h4)
          else None
      | _ \<Rightarrow> None)"

definition EncodeRune :: "nat \<Rightarrow> string" where
  "EncodeRune r =
     (if r < 0x80 then [char_of r]
      else if r < 0x800 then [char_of (0xC0 + r div 64), char_of (0x80 + r mod 64)]
      else if (0xD800 \<le> r \<and> r < 0xE000) \<or> 0x10FFFF < r then
        [CHR 0xEF, CHR 0xBF, CHR 0xBD]
      else if r < 0x10000 then
        [char_of (0xE0 + r div 4096), char_of (0x80 + (r div 64) mod 64),
         char_of (0x80 + r mod 64)]
      else
        [char_of (0xF0 + r div 262144), char_of (0x80 + (r div 4096) mod 64),
         char_of (0x80 + (r div 64) mod 64), char_of (0x80 + r mod 64)])"

definition isSurrogate :: "nat \<Rightarrow> bool" where
  "isSurrogate r = (0xD800 \<le> r \<and> r < 0xE000)"

text \<open>utf16.DecodeRune: \<open>None\<close> stands for the replacement character U+FFFD.\<close>

definition DecodeRune16 :: "nat \<Rightarrow> nat option \<Rightarrow> nat option" where
  "DecodeRune16 r1 r2 =
     (case r2 of
        None \<Rightarrow> None
      | Some r2 \<Rightarrow>
          if 0xD800 \<le> r1 \<and> r1 < 0xDC00 \<and> 0xDC00 \<le> r2 \<and> r2 < 0xE000
          then Some ((r1 - 0xD800) * 1024 + (r2 - 0xDC00) + 0x10000)
          else None)"

definition unescape :: "char \<Rightarrow> char" where
  "unescape e =
     (if e = CHR ''b'' then CHR 0x08
      else if e = CHR ''f'' then CHR 0x0C
      else if e = CHR ''n'' then CHR 0x0A
      else if e = CHR ''r'' then CHR 0x0D
      else if e = CHR ''t'' then CHR 0x09
      else e)"

function unquote :: "string \<Rightarrow> string" where
  "unquote [] = []"
| "unquote [c] = [c]"
| "unquote (c # e # cs) =
     (if c \<noteq> CHR 0x5C then c # unquote (e # cs)
      else if e \<noteq> CHR ''u'' then unescape e # unquote cs
      else
        (case getu4 (c # e # cs) of
           None \<Rightarrow> unquote cs
         | Some rr \<Rightarrow>
             if isSurrogate rr then
               (case DecodeRune16 rr (getu4 (drop 4 cs)) of
                  Some dec \<Rightarrow> EncodeRune dec @ unquote (drop 10 cs)
                | None \<Rightarrow> EncodeRune 0xFFFD @ unquote (drop 4 cs))
             else EncodeRune rr @ unquote (drop 4 cs)))"
  by pat_completeness auto
termination
  by (relation "measure length") auto

subsection \<open>encoding/json: the values of a JSON text\<close>

text \<open>
  The stack has one frame for each open array or object (Go's parseState): the
  elements or members read so far, in reverse, and in \<open>FKey\<close> the key whose value is
  being read. \<open>expect\<close> names the scanner's step between two values.
\<close>

datatype frame =
    FArray "json list"
  | FObject "(string \<times> json) list"
  | FKey "(string \<times> json) list" string

datatype expect =
    BeginValue
  | BeginValueOrEmpty
  | BeginStringOrEmpty
  | BeginString
  | EndKey
  | EndValue
  | EndTop json

definition maxNestingDepth :: nat where
  "maxNestingDepth = 10000"

text \<open>A value is complete: it is the top-level value, an element or a member.\<close>

fun end_value :: "json \<Rightarrow> frame list \<Rightarrow> (expect \<times> frame list) option" where
  "end_value v [] = Some (EndTop v, [])"
| "end_value v (FArray xs # st) = Some (EndValue, FArray (v # xs) # st)"
| "end_value v (FKey ms k # st) = Some (EndValue, FObject ((k, v) # ms) # st)"
| "end_value v (FObject ms # st) = None"

definition pushParseState :: "expect \<Rightarrow> frame \<Rightarrow> frame list \<Rightarrow> (expect \<times> frame list) option" where
  "pushParseState x f st =
     (if length (f # st) \<le> maxNestingDepth then Some (x, f # st) else None)"

fun begin_value :: "token \<Rightarrow> frame list \<Rightarrow> (expect \<times> frame list) option" where
  "begin_value TLBrace st = pushParseState BeginStringOrEmpty (FObject []) st"
| "begin_value TLBracket st = pushParseState BeginValueOrEmpty (FArray []) st"
| "begin_value (TString raw) st = end_value (JString (unquote raw)) st"
| "begin_value (TNumber n) st = end_value (JNumber n) st"
| "begin_value TTrue st = end_value (JBool True) st"
| "begin_value TFalse st = end_value (JBool False) st"
| "begin_value TNull st = end_value JNull st"
| "begin_value _ st = None"

fun begin_string :: "token \<Rightarrow> frame list \<Rightarrow> (expect \<times> frame list) option" where
  "begin_string (TString raw) (FObject ms # st) = Some (EndKey, FKey ms (unquote raw) # st)"
| "begin_string _ _ = None"

text \<open>The closing bracket or brace: the array or object on top is complete.\<close>

fun popParseState :: "frame list \<Rightarrow> (expect \<times> frame list) option" where
  "popParseState (FArray xs # st) = end_value (JArray (rev xs)) st"
| "popParseState (FObject ms # st) = end_value (JObject (rev ms)) st"
| "popParseState _ = None"

fun parse_step :: "expect \<times> frame list \<Rightarrow> token \<Rightarrow> (expect \<times> frame list) option" where
  "parse_step (BeginValue, st) t = begin_value t st"
| "parse_step (BeginValueOrEmpty, st) t =
     (if t = TRBracket then popParseState st else begin_value t st)"
| "parse_step (BeginStringOrEmpty, st) t =
     (if t = TRBrace then popParseState st else begin_string t st)"
| "parse_step (BeginString, st) t = begin_string t st"
| "parse_step (EndKey, st) t = (if t = TColon then Some (BeginValue, st) else None)"
| "parse_step (EndValue, st) t =
     (case st of
        FArray xs # _ \<Rightarrow>
          if t = TComma then Some (BeginValue, st)
          else if t = TRBracket then popParseState st else None
      | FObject ms # _ \<Rightarrow>
          if t = TComma then Some (BeginString, st)
          else if t = TRBrace then popParseState st else None
      | _ \<Rightarrow> None)"
| "parse_step (EndTop v, st) t = None"

fun parse_tokens :: "expect \<times> frame list \<Rightarrow> token list \<Rightarrow> json option" where
  "parse_tokens (x, st) [] = (case x of EndTop v \<Rightarrow> Some v | _ \<Rightarrow> None)"
| "parse_tokens (x, st) (t # ts) =
     (case parse_step (x, st) t of
        None \<Rightarrow> None
      | Some s' \<Rightarrow> parse_tokens s' ts)"

definition parse_json :: "string \<Rightarrow> json option" where
  "parse_json s =
     (case lex LBegin s of
        None \<Rightarrow> None
      | Some ts \<Rightarrow> parse_tokens (BeginValue, []) ts)"

text \<open>\<^verbatim>\<open>json.Valid(data)\<close>: the text is one JSON value.\<close>

definition Valid :: "string \<Rightarrow> bool" where
  "Valid s = (parse_json s \<noteq> None)"

subsection \<open>Errors\<close>

text \<open>
  A Go error is a value with a message. \<open>ErrorString\<close> is \<^verbatim>\<open>errors.New(text)\<close> and
  \<^verbatim>\<open>fmt.Errorf(text)\<close> without operand; \<open>Errorf prefix err\<close> is
  \<^verbatim>\<open>fmt.Errorf(prefix + "%s", err)\<close>. The other constructors are the errors of the
  libraries: the syntax error and the type error of encoding/json (the JSON value and
  the Go type that could not hold it) and the field errors of the validator (the
  fields whose tag failed).
\<close>

datatype error =
    ErrorString string
  | Errorf string error
  | SyntaxError
  | UnmarshalTypeError string string
  | ValidationErrors "string list"

text \<open>
  The message of an error. How the libraries word their own errors is left open: it is
  the parameter \<open>lib\<close>.
\<close>

fun Error :: "(error \<Rightarrow> string) \<Rightarrow> error \<Rightarrow> string" where
  "Error lib (ErrorString text) = text"
| "Error lib (Errorf pre err) = pre @ Error lib err"
| "Error lib err = lib err"

subsection \<open>JSONResponse and json.Unmarshal\<close>

text \<open>
  \<^verbatim>\<open>type JSONResponse struct {
	Headers map[string]string `json:"headers" validate:"required"`
	Body    string            `json:"body" validate:"required"`
}\<close>

  A Go map is nil or a map: \<open>Headers\<close> is \<open>None\<close> for nil.
\<close>

record JSONResponse =
  Headers :: "(string \<rightharpoonup> string) option"
  Body :: string

text \<open>\<^verbatim>\<open>var resp JSONResponse\<close>: the zero value.\<close>

definition zeroJSONResponse :: JSONResponse where
  "zeroJSONResponse = \<lparr>Headers = None, Body = []\<rparr>"

datatype field = FieldHeaders | FieldBody

text \<open>
  A key selects the field with the same name, or else the field whose name is the same
  up to case. Go folds with Unicode's simple case folding: lower case ASCII letters go
  to upper case, and so do U+017F (long s, bytes C5 BF) and U+212A (Kelvin sign, bytes
  E2 84 AA); every other rune outside ASCII stays outside ASCII.
\<close>

definition toUpper :: "char \<Rightarrow> char" where
  "toUpper c =
     (let n = (of_char c :: nat) in if 97 \<le> n \<and> n \<le> 122 then char_of (n - 32) else c)"

function foldName :: "string \<Rightarrow> string" where
  "foldName [] = []"
| "foldName (c # cs) =
     (if c = CHR 0xC5 \<and> take 1 cs = [CHR 0xBF] then CHR ''S'' # foldName (drop 1 cs)
      else if c = CHR 0xE2 \<and> take 2 cs = [CHR 0x84, CHR 0xAA]
        then CHR ''K'' # foldName (drop 2 cs)
      else toUpper c # foldName cs)"
  by pat_completeness auto
termination
  by (relation "measure length") auto

definition find_field :: "string \<Rightarrow> field option" where
  "find_field key =
     (if key = ''headers'' then Some FieldHeaders
      else if key = ''body'' then Some FieldBody
      else if foldName key = foldName ''headers'' then Some FieldHeaders
      else if foldName key = foldName ''body'' then Some FieldBody
      else None)"

text \<open>Unmarshal goes on behind a type error and returns the first one at the end.\<close>

definition saveError :: "error \<Rightarrow> error option \<Rightarrow> error option" where
  "saveError err saved = (case saved of None \<Rightarrow> Some err | Some e \<Rightarrow> Some e)"

fun value_name :: "json \<Rightarrow> string" where
  "value_name JNull = ''null''"
| "value_name (JBool b) = ''bool''"
| "value_name (JNumber n) = ''number''"
| "value_name (JString s) = ''string''"
| "value_name (JArray xs) = ''array''"
| "value_name (JObject ms) = ''object''"

text \<open>
  A JSON value into a Go string: a string is stored, null leaves the string as it is,
  anything else is a type error.
\<close>

fun store_string :: "json \<Rightarrow> string \<times> error option \<Rightarrow> string \<times> error option" where
  "store_string (JString s) (old, saved) = (s, saved)"
| "store_string JNull (old, saved) = (old, saved)"
| "store_string v (old, saved) =
     (old, saveError (UnmarshalTypeError (value_name v) ''string'') saved)"

text \<open>
  A JSON value into a Go \<^verbatim>\<open>map[string]string\<close>: null sets the map to nil; an object
  keeps the entries of a map that is there, makes a map when there is none, and sets
  each key, to the zero string where the value is no string.
\<close>

fun store_members ::
  "(string \<times> json) list \<Rightarrow> (string \<rightharpoonup> string) \<times> error option \<Rightarrow>
     (string \<rightharpoonup> string) \<times> error option" where
  "store_members [] (m, saved) = (m, saved)"
| "store_members ((k, v) # ms) (m, saved) =
     (case store_string v ([], saved) of
        (s, saved') \<Rightarrow> store_members ms (m(k \<mapsto> s), saved'))"

fun store_map ::
  "json \<Rightarrow> (string \<rightharpoonup> string) option \<times> error option \<Rightarrow>
     (string \<rightharpoonup> string) option \<times> error option" where
  "store_map JNull (old, saved) = (None, saved)"
| "store_map (JObject ms) (old, saved) =
     (case store_members ms (case old of None \<Rightarrow> Map.empty | Some m \<Rightarrow> m, saved) of
        (m, saved') \<Rightarrow> (Some m, saved'))"
| "store_map v (old, saved) =
     (old, saveError (UnmarshalTypeError (value_name v) ''map[string]string'') saved)"

text \<open>The members of the top-level object, in order; an unknown key is skipped.\<close>

fun decode_members ::
  "(string \<times> json) list \<Rightarrow> JSONResponse \<times> error option \<Rightarrow> JSONResponse \<times> error option" where
  "decode_members [] (resp, saved) = (resp, saved)"
| "decode_members ((k, v) # ms) (resp, saved) =
     (case find_field k of
        None \<Rightarrow> decode_members ms (resp, saved)
      | Some FieldHeaders \<Rightarrow>
          (case store_map v (Headers resp, saved) of
             (h, saved') \<Rightarrow> decode_members ms (resp\<lparr>Headers := h\<rparr>, saved'))
      | Some FieldBody \<Rightarrow>
          (case store_string v (Body resp, saved) of
             (b, saved') \<Rightarrow> decode_members ms (resp\<lparr>Body := b\<rparr>, saved')))"

text \<open>
  \<^verbatim>\<open>json.Unmarshal(jsonBytes, &resp)\<close>: the struct as it is left, and the error.
  A top-level null leaves the struct as it is.
\<close>

definition Unmarshal :: "string \<Rightarrow> JSONResponse \<Rightarrow> JSONResponse \<times> error option" where
  "Unmarshal data resp =
     (case parse_json data of
        None \<Rightarrow> (resp, Some SyntaxError)
      | Some JNull \<Rightarrow> (resp, None)
      | Some (JObject ms) \<Rightarrow> decode_members ms (resp, None)
      | Some v \<Rightarrow> (resp, Some (UnmarshalTypeError (value_name v) ''llm.JSONResponse'')))"

subsection \<open>The validator\<close>

text \<open>
  \<^verbatim>\<open>validate.Struct(resp)\<close> of github.com/go-playground/validator checks the
  \<^verbatim>\<open>required\<close> tag of each field in order and returns the fields that fail. The tag
  holds for a map, slice, pointer, interface, channel or function that is not nil, and
  for a value of another kind that is not the zero value of its type: a string that is
  not empty.
\<close>

definition validate_Struct :: "JSONResponse \<Rightarrow> error option" where
  "validate_Struct resp =
     (let errs = (if Headers resp = None then [''Headers''] else []) @
                 (if Body resp = [] then [''Body''] else [])
      in if errs = [] then None else Some (ValidationErrors errs))"

subsection \<open>ValidateJSON\<close>

definition ValidateJSON :: "string \<Rightarrow> error option" where
  "ValidateJSON jsonStr =
     (if \<not> Valid jsonStr then Some (ErrorString ''input is not valid JSON'')
      else
        (case Unmarshal jsonStr zeroJSONResponse of
           (resp, Some err) \<Rightarrow> Some (Errorf ''error unmarshalling JSON: '' err)
         | (resp, None) \<Rightarrow>
             (case validate_Struct resp of
                Some err \<Rightarrow> Some (Errorf ''validation error: '' err)
              | None \<Rightarrow> None)))"

subsection \<open>GenerateLLMResponse\<close>

text \<open>
  The types of langchaingo that the function reads: a message has a role and text parts
  (\<^verbatim>\<open>llms.TextParts\<close> makes one part of each text), a response has choices, a choice
  has its content. The model is the function \<^verbatim>\<open>model.GenerateContent\<close> of the
  messages and the call options; it returns a response, which may be nil, and an error.
\<close>

datatype ChatMessageType =
    ChatMessageTypeAI
  | ChatMessageTypeHuman
  | ChatMessageTypeSystem
  | ChatMessageTypeGeneric
  | ChatMessageTypeFunction
  | ChatMessageTypeTool

record MessageContent =
  Role :: ChatMessageType
  Parts :: "string list"

definition TextParts :: "ChatMessageType \<Rightarrow> string \<Rightarrow> MessageContent" where
  "TextParts role text = \<lparr>Role = role, Parts = [text]\<rparr>"

record ContentChoice =
  Content :: string

record ContentResponse =
  Choices :: "ContentChoice list"

record CallOptions =
  WithJSONMode :: bool
  WithTemperature :: real

type_synonym Model =
  "MessageContent list \<Rightarrow> CallOptions \<Rightarrow> ContentResponse option \<times> error option"

definition GenerateLLMResponse ::
  "Model \<Rightarrow> real \<Rightarrow> MessageContent list \<Rightarrow> string \<times> error option" where
  "GenerateLLMResponse model temperature messages =
     (case model messages \<lparr>WithJSONMode = True, WithTemperature = temperature\<rparr> of
        (response, Some err) \<Rightarrow> ([], Some (Errorf ''contentGenerationError: '' err))
      | (None, None) \<Rightarrow> ([], Some (ErrorString ''emptyLLMResponse: response is nil''))
      | (Some response, None) \<Rightarrow>
          (case Choices response of
             [] \<Rightarrow> ([], Some (ErrorString ''emptyLLMResponse: no choices available''))
           | choice # _ \<Rightarrow>
               (let content = Content choice in
                if content = [] then
                  ([], Some (ErrorString ''emptyLLMResponse: content of first choice is empty''))
                else
                  (let resp = cleanResponse content in
                   case ValidateJSON resp of
                     Some err \<Rightarrow> (resp, Some (Errorf ''invalidJSONResponse: '' err))
                   | None \<Rightarrow> (resp, None)))))"

subsection \<open>New\<close>

record Config =
  APIKey :: string
  CloudLocation :: string
  CloudProject :: string
  Model :: string
  Provider :: string
  ServerURL :: string
  Temperature :: real

text \<open>
  The six initialisers are functions of the package in other files; \<open>New\<close> takes them
  as a parameter. \<open>'m\<close> is the type of a client (\<^verbatim>\<open>llms.Model\<close>), \<open>None\<close> is nil.
\<close>

record 'm Initialisers =
  initOpenAIClient :: "Config \<Rightarrow> 'm option \<times> error option"
  initGoogleAIClient :: "Config \<Rightarrow> 'm option \<times> error option"
  initVertexClient :: "Config \<Rightarrow> 'm option \<times> error option"
  initAnthropicClient :: "Config \<Rightarrow> 'm option \<times> error option"
  initCohereClient :: "Config \<Rightarrow> 'm option \<times> error option"
  initOllamaClient :: "Config \<Rightarrow> 'm option \<times> error option"

definition New :: "'m Initialisers \<Rightarrow> Config \<Rightarrow> 'm option \<times> error option" where
  "New inits config =
     (if Provider config = ''openai'' then initOpenAIClient inits config
      else if Provider config = ''googleai'' then initGoogleAIClient inits config
      else if Provider config = ''gcp-vertex'' then initVertexClient inits config
      else if Provider config = ''anthropic'' then initAnthropicClient inits config
      else if Provider config = ''cohere'' then initCohereClient inits config
      else if Provider config = ''ollama'' then initOllamaClient inits config
      else (None, Some (ErrorString ''unsupported llm provider'')))"

subsection \<open>CreateMessageContent\<close>

text \<open>
  \<^verbatim>\<open>var supportsSystemPrompt = map[string]bool{...}\<close>; reading a key that the map
  does not have gives the zero value \<^verbatim>\<open>false\<close>.
\<close>

definition supportsSystemPrompt :: "string \<rightharpoonup> bool" where
  "supportsSystemPrompt =
     [''openai'' \<mapsto> True, ''anthropic'' \<mapsto> True, ''ollama'' \<mapsto> True, ''cohere'' \<mapsto> True]"

definition index_bool :: "(string \<rightharpoonup> bool) \<Rightarrow> string \<Rightarrow> bool" where
  "index_bool m k = (case m k of None \<Rightarrow> False | Some b \<Rightarrow> b)"

text \<open>The two fields of \<^verbatim>\<open>config.Config\<close> that the function reads.\<close>

record PromptConfig =
  SystemPrompt :: string
  UserPrompt :: string

text \<open>
  \<^verbatim>\<open>httputil.DumpRequest\<close> and \<^verbatim>\<open>fmt.Sprintf\<close> with one operand are parameters:
  \<open>DumpRequest r body\<close> is the wire text of the request or an error, \<open>Sprintf format a\<close>
  is the formatted text.
\<close>

definition CreateMessageContent ::
  "('r \<Rightarrow> bool \<Rightarrow> error + string) \<Rightarrow> (string \<Rightarrow> string \<Rightarrow> string) \<Rightarrow>
     'r \<Rightarrow> PromptConfig \<Rightarrow> string \<Rightarrow> error + MessageContent list" where
  "CreateMessageContent DumpRequest Sprintf r cfg provider =
     (case DumpRequest r True of
        Inl err \<Rightarrow> Inl err
      | Inr httpReq \<Rightarrow>
          (let userPrompt = Sprintf (UserPrompt cfg) (TrimSpace httpReq);
               systemPrompt = SystemPrompt cfg
           in if index_bool supportsSystemPrompt provider then
                Inr [TextParts ChatMessageTypeSystem systemPrompt,
                     TextParts ChatMessageTypeHuman userPrompt]
              else
                Inr [TextParts ChatMessageTypeHuman
                       (systemPrompt @ [CHR 0x0A] @ userPrompt)]))"

subsection \<open>The regular expression pass in the words of claim C2\<close>

text \<open>
  The pass as the claim, as amended, describes it, not as the source computes it: every
  character that is no backtick stays, and of every maximal run of \<open>n\<close> backticks the
  triples are taken away, so that \<open>n mod 3\<close> backticks stay. The tag json is a matter of
  the beginning of the text alone and is stated with the claim.
\<close>

function spec_remove_fences :: "string \<Rightarrow> string" where
  "spec_remove_fences [] = []"
| "spec_remove_fences (c # cs) =
     (if c = CHR 0x60 then
        replicate (length (takeWhile ((=) CHR 0x60) (c # cs)) mod 3) CHR 0x60 @
        spec_remove_fences (dropWhile ((=) CHR 0x60) cs)
      else c # spec_remove_fences cs)"
  by pat_completeness auto
termination
  by (relation "measure length") (auto simp: length_dropWhile_le less_Suc_eq_le)

section \<open>Properties\<close>

subsection \<open>Facts about the regular expression pass\<close>

lemma match_at_None_iff: "match_at bos s = None \<longleftrightarrow> \<not> prefix fence s"
  by (simp add: match_at_def)

lemma prefix_fence_Cons:
  "prefix fence (c # cs) \<longleftrightarrow> c = CHR 0x60 \<and> prefix [CHR 0x60, CHR 0x60] cs"
  by (auto simp: fence_def)

lemma sublist_trans: "sublist xs ys \<Longrightarrow> sublist ys zs \<Longrightarrow> sublist xs zs"
proof -
  assume "sublist xs ys" and "sublist ys zs"
  then obtain a b c d where "ys = a @ xs @ b" and "zs = c @ ys @ d"
    by (auto simp: sublist_def)
  then have "zs = (c @ a) @ xs @ (b @ d)" by simp
  then show ?thesis unfolding sublist_def by blast
qed

lemma ReplaceAllString_two_ticks:
  assumes "\<not> prefix [CHR 0x60, CHR 0x60] cs"
  shows "\<not> prefix [CHR 0x60, CHR 0x60] (ReplaceAllString False cs)"
proof (cases cs)
  case Nil
  then show ?thesis by simp
next
  case outer: (Cons x xs)
  show ?thesis
  proof (cases "x = CHR 0x60")
    case False
    with outer show ?thesis by (simp add: match_at_def fence_def)
  next
    case True
    show ?thesis
    proof (cases xs)
      case Nil
      with outer True show ?thesis by (simp add: match_at_def fence_def)
    next
      case (Cons y ys)
      with assms outer True have "y \<noteq> CHR 0x60" by simp
      with outer True Cons show ?thesis by (simp add: match_at_def fence_def)
    qed
  qed
qed

lemma ReplaceAllString_no_fence: "\<not> sublist fence (ReplaceAllString bos s)"
proof (induction bos s rule: ReplaceAllString.induct)
  case (1 bos)
  then show ?case by (simp add: fence_def)
next
  case (2 bos c cs)
  show ?case
  proof (cases "match_at bos (c # cs)")
    case (Some n)
    with 2 show ?thesis by simp
  next
    case None
    then have "\<not> prefix fence (c # cs)" by (simp add: match_at_None_iff)
    then have "c = CHR 0x60 \<longrightarrow> \<not> prefix [CHR 0x60, CHR 0x60] cs"
      by (simp add: prefix_fence_Cons)
    then have "\<not> prefix fence (c # ReplaceAllString False cs)"
      using ReplaceAllString_two_ticks [of cs] by (auto simp: prefix_fence_Cons)
    with None 2 show ?thesis by (simp add: sublist_Cons_right)
  qed
qed

lemma ReplaceAllString_id: "\<not> sublist fence s \<Longrightarrow> ReplaceAllString bos s = s"
proof (induction s arbitrary: bos)
  case Nil
  then show ?case by simp
next
  case (Cons c cs)
  then have "\<not> prefix fence (c # cs)" and "\<not> sublist fence cs"
    by (auto simp: sublist_Cons_right)
  with Cons.IH show ?case by (simp add: match_at_None_iff [THEN iffD2])
qed

lemma ReplaceAllString_subseq: "subseq (ReplaceAllString bos s) s"
proof (induction bos s rule: ReplaceAllString.induct)
  case (1 bos)
  then show ?case by simp
next
  case (2 bos c cs)
  show ?case
  proof (cases "match_at bos (c # cs)")
    case (Some n)
    with 2 have "subseq (ReplaceAllString bos (c # cs)) (drop n (c # cs))" by simp
    moreover have "subseq (drop n (c # cs)) (c # cs)"
      by (rule suffix_imp_subseq) (rule suffix_drop)
    ultimately show ?thesis by (rule subseq_order.trans)
  next
    case None
    with 2 show ?thesis by simp
  qed
qed

subsection \<open>Facts about strings.TrimSpace\<close>

lemma trim_runes_suffix: "suffix (trim_runes ps s) s"
proof (induction ps s rule: trim_runes.induct)
  case (1 ps s)
  show ?case
  proof (cases "find (\<lambda>p. p \<noteq> [] \<and> prefix p s) ps")
    case None
    then show ?thesis by (simp add: trim_runes.simps [of ps s])
  next
    case (Some p)
    with 1 have "suffix (trim_runes ps (drop (length p) s)) (drop (length p) s)" by simp
    then have "suffix (trim_runes ps (drop (length p) s)) s"
      using suffix_drop suffix_order.trans by blast
    with Some show ?thesis by (simp add: trim_runes.simps [of ps s])
  qed
qed

lemma trim_runes_done:
  "find (\<lambda>p. p \<noteq> [] \<and> prefix p (trim_runes ps s)) ps = None"
proof (induction ps s rule: trim_runes.induct)
  case (1 ps s)
  show ?case
  proof (cases "find (\<lambda>p. p \<noteq> [] \<and> prefix p s) ps")
    case None
    then show ?thesis by (simp add: trim_runes.simps [of ps s])
  next
    case (Some p)
    with 1 show ?thesis by (simp add: trim_runes.simps [of ps s])
  qed
qed

lemma trim_runes_fixed:
  "find (\<lambda>p. p \<noteq> [] \<and> prefix p s) ps = None \<Longrightarrow> trim_runes ps s = s"
  by (simp add: trim_runes.simps [of ps s])

lemma trim_runes_idem: "trim_runes ps (trim_runes ps s) = trim_runes ps s"
  by (rule trim_runes_fixed) (rule trim_runes_done)

lemma TrimLeftSpace_suffix: "suffix (TrimLeftSpace s) s"
  by (simp add: TrimLeftSpace_def trim_runes_suffix)

lemma TrimRightSpace_prefix: "prefix (TrimRightSpace s) s"
  using trim_runes_suffix [of "map rev space_runes" "rev s"]
  by (simp add: TrimRightSpace_def suffix_to_prefix)

lemma TrimSpace_sublist: "sublist (TrimSpace s) s"
proof -
  have "sublist (TrimSpace s) (TrimLeftSpace s)"
    unfolding TrimSpace_def by (rule prefix_imp_sublist) (rule TrimRightSpace_prefix)
  moreover have "sublist (TrimLeftSpace s) s"
    by (rule suffix_imp_sublist) (rule TrimLeftSpace_suffix)
  ultimately show ?thesis by (rule sublist_trans)
qed

lemma TrimRightSpace_idem: "TrimRightSpace (TrimRightSpace s) = TrimRightSpace s"
  by (simp add: TrimRightSpace_def trim_runes_idem)

lemma TrimLeftSpace_prefix_fixed:
  assumes "TrimLeftSpace u = u" and "prefix v u"
  shows "TrimLeftSpace v = v"
proof -
  have "find (\<lambda>p. p \<noteq> [] \<and> prefix p u) space_runes = None"
    using trim_runes_done [of space_runes u] assms(1) by (simp add: TrimLeftSpace_def)
  then have "\<forall>p \<in> set space_runes. \<not> (p \<noteq> [] \<and> prefix p u)"
    by (simp add: find_None_iff)
  then have "\<forall>p \<in> set space_runes. \<not> (p \<noteq> [] \<and> prefix p v)"
    using assms(2) prefix_order.trans by blast
  then have "find (\<lambda>p. p \<noteq> [] \<and> prefix p v) space_runes = None"
    by (simp add: find_None_iff)
  then show ?thesis by (simp add: TrimLeftSpace_def trim_runes_fixed)
qed

lemma TrimSpace_idem: "TrimSpace (TrimSpace s) = TrimSpace s"
proof -
  have "TrimLeftSpace (TrimLeftSpace s) = TrimLeftSpace s"
    by (simp add: TrimLeftSpace_def trim_runes_idem)
  then have "TrimLeftSpace (TrimSpace s) = TrimSpace s"
    unfolding TrimSpace_def by (rule TrimLeftSpace_prefix_fixed) (rule TrimRightSpace_prefix)
  then show ?thesis
    by (simp add: TrimSpace_def [of "TrimSpace s"]) (simp add: TrimSpace_def TrimRightSpace_idem)
qed

subsection \<open>Facts about cleanResponse\<close>

lemma cleanResponse_no_fence: "\<not> sublist fence (cleanResponse s)"
proof
  assume "sublist fence (cleanResponse s)"
  then have "sublist fence (ReplaceAllString True s)"
    unfolding cleanResponse_def using TrimSpace_sublist sublist_trans by blast
  then show False by (simp add: ReplaceAllString_no_fence)
qed

subsection \<open>The regular expression pass and its description by runs\<close>

lemma ReplaceAllString_fence: "ReplaceAllString False (fence @ t) = ReplaceAllString False t"
  by (simp add: fence_def match_at_def)

lemma ReplaceAllString_fence_json:
  "ReplaceAllString True (fence @ ''json'' @ t) = ReplaceAllString False t"
  by (simp add: fence_def match_at_def)

lemma run_split: "replicate (length (takeWhile ((=) c) xs)) c @ dropWhile ((=) c) xs = xs"
  by (induction xs) auto

lemma ReplaceAllString_short_run:
  assumes "\<not> prefix [CHR 0x60] t" and "r < 3"
  shows "ReplaceAllString False (replicate r CHR 0x60 @ t) =
    replicate r CHR 0x60 @ ReplaceAllString False t"
proof -
  have t: "match_at False (CHR 0x60 # t) = None"
    using assms(1) by (cases t) (auto simp: match_at_def fence_def)
  have tt: "match_at False (CHR 0x60 # CHR 0x60 # t) = None"
    using assms(1) by (cases t) (auto simp: match_at_def fence_def)
  from assms(2) consider "r = 0" | "r = 1" | "r = 2" by linarith
  then show ?thesis
  proof cases
    case 1
    then show ?thesis by simp
  next
    case 2
    with t show ?thesis by simp
  next
    case 3
    then have "replicate r CHR 0x60 = [CHR 0x60, CHR 0x60]"
      by (simp add: numeral_2_eq_2)
    with t tt show ?thesis by simp
  qed
qed

lemma ReplaceAllString_triples:
  "ReplaceAllString False (replicate (3 * k + r) CHR 0x60 @ t) =
   ReplaceAllString False (replicate r CHR 0x60 @ t)"
proof (induction k)
  case 0
  then show ?case by simp
next
  case (Suc k)
  have "3 * Suc k + r = Suc (Suc (Suc (3 * k + r)))"
    by simp
  then have "replicate (3 * Suc k + r) CHR 0x60 @ t = fence @ replicate (3 * k + r) CHR 0x60 @ t"
    by (simp only: replicate_Suc fence_def append_Cons append_Nil)
  with Suc show ?case by (simp only: ReplaceAllString_fence)
qed

lemma ReplaceAllString_run:
  assumes "\<not> prefix [CHR 0x60] t"
  shows "ReplaceAllString False (replicate n CHR 0x60 @ t) =
    replicate (n mod 3) CHR 0x60 @ ReplaceAllString False t"
proof -
  have "ReplaceAllString False (replicate (3 * (n div 3) + n mod 3) CHR 0x60 @ t) =
      ReplaceAllString False (replicate (n mod 3) CHR 0x60 @ t)"
    by (rule ReplaceAllString_triples)
  then show ?thesis
    using ReplaceAllString_short_run [OF assms, of "n mod 3"] by simp
qed

lemma run_split_Cons:
  "replicate (length (takeWhile ((=) c) (c # cs))) c @ dropWhile ((=) c) cs = c # cs"
  by (simp add: run_split)

lemma dropWhile_no_prefix: "\<not> prefix [c] (dropWhile ((=) c) cs)"
  by (induction cs) auto

lemma ReplaceAllString_first_run:
  "ReplaceAllString False (CHR 0x60 # cs) =
     replicate (length (takeWhile ((=) CHR 0x60) (CHR 0x60 # cs)) mod 3) CHR 0x60 @
     ReplaceAllString False (dropWhile ((=) CHR 0x60) cs)"
  using ReplaceAllString_run [OF dropWhile_no_prefix [of "CHR 0x60" cs],
      of "length (takeWhile ((=) CHR 0x60) (CHR 0x60 # cs))"]
  by (simp only: run_split_Cons)

lemma ReplaceAllString_spec: "ReplaceAllString False s = spec_remove_fences s"
proof (induction s rule: spec_remove_fences.induct)
  case 1
  then show ?case by simp
next
  case (2 c cs)
  show ?case
  proof (cases "c = CHR 0x60")
    case False
    then have "match_at False (c # cs) = None"
      by (simp add: match_at_def fence_def)
    with False 2 show ?thesis by simp
  next
    case True
    then have "ReplaceAllString False (dropWhile ((=) CHR 0x60) cs) =
        spec_remove_fences (dropWhile ((=) CHR 0x60) cs)"
      by (rule 2(1))
    then have "ReplaceAllString False (CHR 0x60 # cs) = spec_remove_fences (CHR 0x60 # cs)"
      by (simp only: ReplaceAllString_first_run spec_remove_fences.simps simp_thms if_True)
    with True show ?thesis by (simp only:)
  qed
qed

lemma ReplaceAllString_start:
  "ReplaceAllString True s =
     ReplaceAllString False (if prefix ''```json'' s then drop 7 s else s)"
proof (cases "prefix ''```json'' s")
  case True
  then obtain t where "s = fence @ ''json'' @ t"
    by (auto simp: prefix_def fence_def)
  with True show ?thesis
    using ReplaceAllString_fence_json [of t] by (simp add: fence_def)
next
  case False
  show ?thesis
  proof (cases s)
    case Nil
    then show ?thesis by simp
  next
    case (Cons c cs)
    with False have "match_at True (c # cs) = match_at False (c # cs)"
      by (auto simp: match_at_def fence_def prefix_def)
    then have "ReplaceAllString True (c # cs) = ReplaceAllString False (c # cs)"
      by (simp only: ReplaceAllString.simps)
    with False Cons show ?thesis by (simp only: if_False)
  qed
qed

subsection \<open>Facts about ValidateJSON and GenerateLLMResponse\<close>

lemma store_members_strings:
  "\<forall>(k, v) \<in> set hs. \<exists>x. v = JString x \<Longrightarrow> snd (store_members hs (m, saved)) = saved"
proof (induction hs arbitrary: m)
  case Nil
  then show ?case by simp
next
  case (Cons h hs)
  obtain k v where h: "h = (k, v)" by (cases h)
  with Cons.prems obtain x where "v = JString x" by auto
  with h Cons show ?case by simp
qed

lemma ValidateJSON_parsed:
  assumes "parse_json s = Some (JObject ms)"
    and "decode_members ms (zeroJSONResponse, None) = (resp, None)"
  shows "ValidateJSON s =
    (case validate_Struct resp of
       None \<Rightarrow> None
     | Some err \<Rightarrow> Some (Errorf ''validation error: '' err))"
  using assms by (simp add: ValidateJSON_def Valid_def Unmarshal_def split: option.splits)

lemma ValidateJSON_invalid_text:
  "\<not> Valid s \<Longrightarrow> ValidateJSON s = Some (ErrorString ''input is not valid JSON'')"
  by (simp add: ValidateJSON_def)

lemma ValidateJSON_valid_text:
  assumes "Valid s" and "ValidateJSON s = Some e"
  shows "(\<exists>err. e = Errorf ''error unmarshalling JSON: '' err) \<or>
         (\<exists>err. e = Errorf ''validation error: '' err)"
  using assms by (auto simp: ValidateJSON_def split: prod.splits option.splits)

lemma GenerateLLMResponse_content:
  assumes "model messages \<lparr>WithJSONMode = True, WithTemperature = temperature\<rparr> = (Some response, None)"
    and "Choices response = choice # rest"
    and "Content choice \<noteq> []"
  shows "GenerateLLMResponse model temperature messages =
    (cleanResponse (Content choice),
     case ValidateJSON (cleanResponse (Content choice)) of
       None \<Rightarrow> None
     | Some err \<Rightarrow> Some (Errorf ''invalidJSONResponse: '' err))"
  using assms by (simp add: GenerateLLMResponse_def split: option.splits)

section \<open>The claims\<close>

text \<open>
  C1. When the request can be dumped, CreateMessageContent returns, for a provider that
  supportsSystemPrompt holds true (openai, anthropic, ollama, cohere), exactly two
  messages: the system prompt with role System, then with role Human the user prompt
  formatted with the trimmed wire text of the request. For every other provider string
  it returns exactly one message with role Human, whose text is the system prompt, a
  newline and that user prompt.
\<close>

theorem CreateMessageContent_messages:
  assumes "DumpRequest r True = Inr httpReq"
  shows "CreateMessageContent DumpRequest Sprintf r cfg provider =
    (if provider \<in> {''openai'', ''anthropic'', ''ollama'', ''cohere''} then
       Inr [\<lparr>Role = ChatMessageTypeSystem, Parts = [SystemPrompt cfg]\<rparr>,
            \<lparr>Role = ChatMessageTypeHuman,
             Parts = [Sprintf (UserPrompt cfg) (TrimSpace httpReq)]\<rparr>]
     else
       Inr [\<lparr>Role = ChatMessageTypeHuman,
             Parts = [SystemPrompt cfg @ [CHR 0x0A] @
                      Sprintf (UserPrompt cfg) (TrimSpace httpReq)]\<rparr>])"
  using assms
  by (simp add: CreateMessageContent_def index_bool_def supportsSystemPrompt_def TextParts_def)

text \<open>The theorem at a request that dumps to a text with spaces around it.\<close>

theorem CreateMessageContent_messages_witness:
  "(\<lambda>r body. Inr r) '' GET / HTTP/1.1 '' True = (Inr '' GET / HTTP/1.1 '' :: error + string) \<and>
   CreateMessageContent (\<lambda>r body. Inr r) (\<lambda>format a. take (length format - 2) format @ a)
       '' GET / HTTP/1.1 '' \<lparr>SystemPrompt = ''sys'', UserPrompt = ''req: %s''\<rparr> ''openai'' =
     Inr [\<lparr>Role = ChatMessageTypeSystem, Parts = [''sys'']\<rparr>,
          \<lparr>Role = ChatMessageTypeHuman, Parts = [''req: GET / HTTP/1.1'']\<rparr>] \<and>
   CreateMessageContent (\<lambda>r body. Inr r) (\<lambda>format a. take (length format - 2) format @ a)
       '' GET / HTTP/1.1 '' \<lparr>SystemPrompt = ''sys'', UserPrompt = ''req: %s''\<rparr> ''googleai'' =
     Inr [\<lparr>Role = ChatMessageTypeHuman,
           Parts = [''sys'' @ [CHR 0x0A] @ ''req: GET / HTTP/1.1'']\<rparr>]"
proof -
  have t: "TrimSpace '' GET / HTTP/1.1 '' = ''GET / HTTP/1.1''"
    by code_simp
  show ?thesis
    using t
      CreateMessageContent_messages
        [where DumpRequest = "\<lambda>r body. Inr r" and r = "'' GET / HTTP/1.1 ''"
          and httpReq = "'' GET / HTTP/1.1 ''"
          and Sprintf = "\<lambda>format a. take (length format - 2) format @ a"
          and cfg = "\<lparr>SystemPrompt = ''sys'', UserPrompt = ''req: %s''\<rparr>"
          and provider = "''openai''"]
      CreateMessageContent_messages
        [where DumpRequest = "\<lambda>r body. Inr r" and r = "'' GET / HTTP/1.1 ''"
          and httpReq = "'' GET / HTTP/1.1 ''"
          and Sprintf = "\<lambda>format a. take (length format - 2) format @ a"
          and cfg = "\<lparr>SystemPrompt = ''sys'', UserPrompt = ''req: %s''\<rparr>"
          and provider = "''googleai''"]
    by simp
qed

text \<open>
  C2 (as amended). For every input string the cleaning step is one pass from left to
  right, without recursion. When the text begins with three backticks directly followed
  by json, these seven characters are deleted. In the text that is left, three backticks
  are deleted wherever they occur, also in the interior of the text: of every maximal
  run of \<open>n\<close> backticks, \<open>n mod 3\<close> backticks remain. Every other character is left
  unchanged and in its place. Then the white space around the result is trimmed. So the
  result holds no three backticks in a row, it is a subsequence of the input, and a text
  that holds no three backticks in a row is only trimmed.
\<close>

theorem cleanResponse_removes_every_fence:
  "cleanResponse s =
     TrimSpace (spec_remove_fences (if prefix ''```json'' s then drop 7 s else s)) \<and>
   \<not> sublist ''```'' (cleanResponse s) \<and>
   subseq (cleanResponse s) s \<and>
   (\<not> sublist ''```'' s \<longrightarrow> cleanResponse s = TrimSpace s)"
proof -
  have f: "''```'' = fence" by (simp add: fence_def)
  have 0: "cleanResponse s =
      TrimSpace (spec_remove_fences (if prefix ''```json'' s then drop 7 s else s))"
    by (simp only: cleanResponse_def ReplaceAllString_start ReplaceAllString_spec)
  have 1: "\<not> sublist ''```'' (cleanResponse s)"
    unfolding f by (rule cleanResponse_no_fence)
  have "subseq (TrimSpace (ReplaceAllString True s)) (ReplaceAllString True s)"
    by (rule sublist_imp_subseq) (rule TrimSpace_sublist)
  then have 2: "subseq (cleanResponse s) s"
    unfolding cleanResponse_def using ReplaceAllString_subseq subseq_order.trans by blast
  have 3: "cleanResponse s = TrimSpace s" if "\<not> sublist ''```'' s"
    using that unfolding f by (simp add: cleanResponse_def ReplaceAllString_id)
  from 0 1 2 3 show ?thesis by blast
qed

text \<open>
  The theorem at a text without three backticks in a row, at a run of four backticks,
  and at a fenced text with single backticks in its interior.
\<close>

theorem cleanResponse_removes_every_fence_witness:
  "\<not> sublist ''```'' '' a`b '' \<and> cleanResponse '' a`b '' = ''a`b'' \<and>
   cleanResponse ''a````b'' = ''a`b'' \<and>
   cleanResponse (''```json'' @ [CHR 0x0A] @ ''{x`ls`y}'' @ [CHR 0x0A] @ ''```'') = ''{x`ls`y}''"
proof -
  have h: "\<not> sublist ''```'' '' a`b ''"
    by code_simp
  have t1: "TrimSpace '' a`b '' = ''a`b''"
    by code_simp
  have t2: "TrimSpace (spec_remove_fences
      (if prefix ''```json'' ''a````b'' then drop 7 ''a````b'' else ''a````b'')) = ''a`b''"
    by code_simp
  have t3: "TrimSpace (spec_remove_fences
      (if prefix ''```json'' (''```json'' @ [CHR 0x0A] @ ''{x`ls`y}'' @ [CHR 0x0A] @ ''```'')
       then drop 7 (''```json'' @ [CHR 0x0A] @ ''{x`ls`y}'' @ [CHR 0x0A] @ ''```'')
       else ''```json'' @ [CHR 0x0A] @ ''{x`ls`y}'' @ [CHR 0x0A] @ ''```'')) = ''{x`ls`y}''"
    by code_simp
  from cleanResponse_removes_every_fence [of "'' a`b ''"] h
  have "cleanResponse '' a`b '' = TrimSpace '' a`b ''"
    by blast
  then have "cleanResponse '' a`b '' = ''a`b''"
    using t1 by (rule trans)
  moreover from cleanResponse_removes_every_fence [of "''a````b''", THEN conjunct1]
  have "cleanResponse ''a````b'' = ''a`b''"
    using t2 by (rule trans)
  moreover from
    cleanResponse_removes_every_fence
      [of "''```json'' @ [CHR 0x0A] @ ''{x`ls`y}'' @ [CHR 0x0A] @ ''```''", THEN conjunct1]
  have "cleanResponse (''```json'' @ [CHR 0x0A] @ ''{x`ls`y}'' @ [CHR 0x0A] @ ''```'') =
      ''{x`ls`y}''"
    using t3 by (rule trans)
  ultimately show ?thesis using h by (intro conjI)
qed

text \<open>
  The claim as it is written fails: between a leading and a trailing fence, the fence in
  the interior of the text is deleted as well.
\<close>

theorem cleanResponse_interior_fence_counterexample:
  "cleanResponse (''```json'' @ [CHR 0x0A] @ ''x```y'' @ [CHR 0x0A] @ ''```'') = ''xy'' \<and>
   cleanResponse (''```json'' @ [CHR 0x0A] @ ''x```y'' @ [CHR 0x0A] @ ''```'') \<noteq> ''x```y''"
proof -
  have "cleanResponse (''```json'' @ [CHR 0x0A] @ ''x```y'' @ [CHR 0x0A] @ ''```'') = ''xy''"
    by code_simp
  then show ?thesis by simp
qed

text \<open>
  C3 (as amended). When the cleaned text of the first choice is not valid JSON,
  GenerateLLMResponse returns the cleaned text and an error of the kind
  invalidJSONResponse, the kind of every failure of ValidateJSON; there is no kind
  MalformedJSON. Its message is "invalidJSONResponse: input is not valid JSON", and no
  failure on a valid JSON text (a field that is missing or of the wrong type) has this
  message, however the libraries word their errors.
\<close>

theorem GenerateLLMResponse_not_valid_json:
  "(model msgs \<lparr>WithJSONMode = True, WithTemperature = t\<rparr> = (Some response, None) \<and>
    Choices response = choice # rest \<and> Content choice \<noteq> [] \<and>
    \<not> Valid (cleanResponse (Content choice)) \<longrightarrow>
      GenerateLLMResponse model t msgs =
        (cleanResponse (Content choice),
         Some (Errorf ''invalidJSONResponse: '' (ErrorString ''input is not valid JSON'')))) \<and>
   Error lib (Errorf ''invalidJSONResponse: '' (ErrorString ''input is not valid JSON'')) =
     ''invalidJSONResponse: input is not valid JSON'' \<and>
   (Valid s \<and> ValidateJSON s = Some e \<longrightarrow>
      Error lib (Errorf ''invalidJSONResponse: '' e) \<noteq>
        ''invalidJSONResponse: input is not valid JSON'')"
proof -
  have 1: "GenerateLLMResponse model t msgs =
        (cleanResponse (Content choice),
         Some (Errorf ''invalidJSONResponse: '' (ErrorString ''input is not valid JSON'')))"
    if "model msgs \<lparr>WithJSONMode = True, WithTemperature = t\<rparr> = (Some response, None)"
      "Choices response = choice # rest" "Content choice \<noteq> []"
      "\<not> Valid (cleanResponse (Content choice))"
    using that by (simp add: GenerateLLMResponse_content ValidateJSON_invalid_text)
  have 2: "Error lib (Errorf ''invalidJSONResponse: '' e) \<noteq>
        ''invalidJSONResponse: input is not valid JSON''"
    if "Valid s" "ValidateJSON s = Some e"
    using ValidateJSON_valid_text [OF that] by auto
  from 1 2 show ?thesis by simp
qed

text \<open>The theorem at the content "not json" and at a valid text without headers.\<close>

theorem GenerateLLMResponse_not_valid_json_witness:
  \<open>\<not> Valid (cleanResponse ''not json'') \<and>
   GenerateLLMResponse (\<lambda>m opts. (Some \<lparr>Choices = [\<lparr>Content = ''not json''\<rparr>]\<rparr>, None)) 1 [] =
     (cleanResponse ''not json'',
      Some (Errorf ''invalidJSONResponse: '' (ErrorString ''input is not valid JSON''))) \<and>
   Valid ''{"body":"x"}'' \<and>
   ValidateJSON ''{"body":"x"}'' =
     Some (Errorf ''validation error: '' (ValidationErrors [''Headers''])) \<and>
   Error (\<lambda>e. ''?'')
       (Errorf ''invalidJSONResponse: ''
         (Errorf ''validation error: '' (ValidationErrors [''Headers'']))) \<noteq>
     ''invalidJSONResponse: input is not valid JSON''\<close>
proof -
  have h1: \<open>\<not> Valid (cleanResponse ''not json'')\<close>
    by code_simp
  have h2: \<open>Valid ''{"body":"x"}''\<close>
    by code_simp
  have h3: \<open>ValidateJSON ''{"body":"x"}'' =
      Some (Errorf ''validation error: '' (ValidationErrors [''Headers'']))\<close>
    by code_simp
  show ?thesis
    using h1 h2 h3
      GenerateLLMResponse_not_valid_json
        [of \<open>\<lambda>m opts. (Some \<lparr>Choices = [\<lparr>Content = ''not json''\<rparr>]\<rparr>, None)\<close> "[]" 1
          \<open>\<lparr>Choices = [\<lparr>Content = ''not json''\<rparr>]\<rparr>\<close> \<open>\<lparr>Content = ''not json''\<rparr>\<close> "[]"
          \<open>\<lambda>e. ''?''\<close> \<open>''{"body":"x"}''\<close>
          \<open>Errorf ''validation error: '' (ValidationErrors [''Headers''])\<close>]
    by simp
qed

text \<open>
  The claim as it is written fails: the error for the content "not json" has the prefix
  invalidJSONResponse, as the error for a valid JSON text without headers has.
\<close>

theorem GenerateLLMResponse_not_json_counterexample:
  \<open>GenerateLLMResponse (\<lambda>m opts. (Some \<lparr>Choices = [\<lparr>Content = ''not json''\<rparr>]\<rparr>, None)) 0 [] =
     (''not json'',
      Some (Errorf ''invalidJSONResponse: '' (ErrorString ''input is not valid JSON''))) \<and>
   GenerateLLMResponse
       (\<lambda>m opts. (Some \<lparr>Choices = [\<lparr>Content = ''{"body":"x"}''\<rparr>]\<rparr>, None)) 0 [] =
     (''{"body":"x"}'',
      Some (Errorf ''invalidJSONResponse: ''
             (Errorf ''validation error: '' (ValidationErrors [''Headers'']))))\<close>
proof -
  have c: \<open>cleanResponse ''not json'' = ''not json''\<close>
    \<open>cleanResponse ''{"body":"x"}'' = ''{"body":"x"}''\<close>
    by code_simp+
  have v: \<open>ValidateJSON ''not json'' = Some (ErrorString ''input is not valid JSON'')\<close>
    \<open>ValidateJSON ''{"body":"x"}'' =
      Some (Errorf ''validation error: '' (ValidationErrors [''Headers'']))\<close>
    by code_simp+
  show ?thesis
    using c v by (simp add: GenerateLLMResponse_def)
qed

text \<open>
  C4 (as amended). Validation rejects a JSON document whose body key is bound to the
  empty string: for every headers object whose values are strings, the document with
  the members headers and body, body being "", fails validation with the validation
  error of the field Body. The tag required asks for a string that is not empty.
\<close>

theorem ValidateJSON_empty_body:
  assumes "parse_json s = Some (JObject [(''headers'', JObject hs), (''body'', JString [])])"
    and "\<forall>(k, v) \<in> set hs. \<exists>x. v = JString x"
  shows "ValidateJSON s = Some (Errorf ''validation error: '' (ValidationErrors [''Body'']))"
proof -
  obtain m saved where m: "store_members hs (Map.empty, None) = (m, saved)"
    by (cases "store_members hs (Map.empty, None)")
  with store_members_strings [OF assms(2), of Map.empty None] have "saved = None" by simp
  with m have "decode_members [(''headers'', JObject hs), (''body'', JString [])]
      (zeroJSONResponse, None) = (\<lparr>Headers = Some m, Body = []\<rparr>, None)"
    by (simp add: find_field_def zeroJSONResponse_def)
  from ValidateJSON_parsed [OF assms(1) this] show ?thesis
    by (simp add: validate_Struct_def)
qed

text \<open>The theorem at a document with two headers.\<close>

theorem ValidateJSON_empty_body_witness:
  \<open>parse_json ''{"headers":{"Server":"nginx","X":""},"body":""}'' =
     Some (JObject [(''headers'', JObject [(''Server'', JString ''nginx''), (''X'', JString [])]),
                    (''body'', JString [])]) \<and>
   (\<exists>x. JString ''nginx'' = JString x) \<and> (\<exists>x. JString [] = JString x) \<and>
   ValidateJSON ''{"headers":{"Server":"nginx","X":""},"body":""}'' =
     Some (Errorf ''validation error: '' (ValidationErrors [''Body'']))\<close>
proof -
  have h1: \<open>parse_json ''{"headers":{"Server":"nginx","X":""},"body":""}'' =
     Some (JObject [(''headers'', JObject [(''Server'', JString ''nginx''), (''X'', JString [])]),
                    (''body'', JString [])])\<close>
    by code_simp
  have h2: "\<forall>(k, v) \<in> set [(''Server'', JString ''nginx''), (''X'', JString [])]. \<exists>x. v = JString x"
    by simp
  from h1 ValidateJSON_empty_body [OF h1 h2] show ?thesis
    by simp
qed

text \<open>
  The claim as it is written fails: a document with a header and the body "" does not
  pass validation.
\<close>

theorem ValidateJSON_empty_body_counterexample:
  \<open>ValidateJSON ''{"headers":{"a":"b"},"body":""}'' =
     Some (Errorf ''validation error: '' (ValidationErrors [''Body'']))\<close>
  by code_simp

text \<open>
  C5 (as amended). Validation does not reject a document because its headers field is
  an empty mapping: the document with the members headers, bound to the empty object,
  and body passes validation exactly when body is bound to a string that is not empty.
  The tag required asks for a map that is not nil: a document whose headers is null,
  or that has no headers, fails validation for every body value.
\<close>

theorem ValidateJSON_empty_headers:
  "(parse_json s = Some (JObject [(''headers'', JObject []), (''body'', bv)]) \<longrightarrow>
      (ValidateJSON s = None \<longleftrightarrow> (\<exists>b. bv = JString b \<and> b \<noteq> []))) \<and>
   (parse_json s = Some (JObject [(''headers'', JNull), (''body'', bv)]) \<or>
    parse_json s = Some (JObject [(''body'', bv)]) \<longrightarrow> ValidateJSON s \<noteq> None)"
proof -
  have 1: "ValidateJSON s = None \<longleftrightarrow> (\<exists>b. bv = JString b \<and> b \<noteq> [])"
    if "parse_json s = Some (JObject [(''headers'', JObject []), (''body'', bv)])"
    using that
    by (cases bv)
      (simp_all add: ValidateJSON_def Valid_def Unmarshal_def find_field_def
        zeroJSONResponse_def validate_Struct_def saveError_def)
  have 2: "ValidateJSON s \<noteq> None"
    if "parse_json s = Some (JObject [(''headers'', JNull), (''body'', bv)])"
    using that
    by (cases bv)
      (simp_all add: ValidateJSON_def Valid_def Unmarshal_def find_field_def
        zeroJSONResponse_def validate_Struct_def saveError_def)
  have 3: "ValidateJSON s \<noteq> None"
    if "parse_json s = Some (JObject [(''body'', bv)])"
    using that
    by (cases bv)
      (simp_all add: ValidateJSON_def Valid_def Unmarshal_def find_field_def
        zeroJSONResponse_def validate_Struct_def saveError_def)
  from 1 2 3 show ?thesis by blast
qed

text \<open>The theorem at a document with empty headers and at one whose headers is null.\<close>

theorem ValidateJSON_empty_headers_witness:
  \<open>parse_json ''{"headers":{},"body":"ok"}'' =
     Some (JObject [(''headers'', JObject []), (''body'', JString ''ok'')]) \<and>
   ValidateJSON ''{"headers":{},"body":"ok"}'' = None \<and>
   parse_json ''{"headers":null,"body":"ok"}'' =
     Some (JObject [(''headers'', JNull), (''body'', JString ''ok'')]) \<and>
   ValidateJSON ''{"headers":null,"body":"ok"}'' \<noteq> None\<close>
proof -
  have h1: \<open>parse_json ''{"headers":{},"body":"ok"}'' =
     Some (JObject [(''headers'', JObject []), (''body'', JString ''ok'')])\<close>
    by code_simp
  have h2: \<open>parse_json ''{"headers":null,"body":"ok"}'' =
     Some (JObject [(''headers'', JNull), (''body'', JString ''ok'')])\<close>
    by code_simp
  show ?thesis
    using h1 h2
      ValidateJSON_empty_headers [of \<open>''{"headers":{},"body":"ok"}''\<close> "JString ''ok''"]
      ValidateJSON_empty_headers [of \<open>''{"headers":null,"body":"ok"}''\<close> "JString ''ok''"]
    by simp
qed

text \<open>
  The claim as it is written fails: a document with empty headers and the body "x"
  passes validation.
\<close>

theorem ValidateJSON_empty_headers_counterexample:
  \<open>ValidateJSON ''{"headers":{},"body":"x"}'' = None\<close>
  by code_simp

text \<open>
  C6. For every provider string outside openai, googleai, gcp-vertex, anthropic, cohere
  and ollama, New returns no client and the error "unsupported llm provider", whatever
  the initialisers would return: no initialiser is a fallback.
\<close>

theorem New_unsupported_provider:
  assumes "Provider config \<notin>
    {''openai'', ''googleai'', ''gcp-vertex'', ''anthropic'', ''cohere'', ''ollama''}"
  shows "New inits config = (None, Some (ErrorString ''unsupported llm provider''))"
  using assms by (simp add: New_def)

text \<open>The theorem at the provider mistral, with initialisers that all succeed.\<close>

theorem New_unsupported_provider_witness:
  "Provider \<lparr>APIKey = ''k'', CloudLocation = [], CloudProject = [], Model = ''m'',
       Provider = ''mistral'', ServerURL = [], Temperature = 1\<rparr> \<notin>
     {''openai'', ''googleai'', ''gcp-vertex'', ''anthropic'', ''cohere'', ''ollama''} \<and>
   New \<lparr>initOpenAIClient = \<lambda>c. (Some (1::nat), None),
        initGoogleAIClient = \<lambda>c. (Some 2, None),
        initVertexClient = \<lambda>c. (Some 3, None),
        initAnthropicClient = \<lambda>c. (Some 4, None),
        initCohereClient = \<lambda>c. (Some 5, None),
        initOllamaClient = \<lambda>c. (Some 6, None)\<rparr>
       \<lparr>APIKey = ''k'', CloudLocation = [], CloudProject = [], Model = ''m'',
        Provider = ''mistral'', ServerURL = [], Temperature = 1\<rparr> =
     (None, Some (ErrorString ''unsupported llm provider''))"
proof -
  have h: "Provider \<lparr>APIKey = ''k'', CloudLocation = [], CloudProject = [], Model = ''m'',
       Provider = ''mistral'', ServerURL = [], Temperature = 1\<rparr> \<notin>
     {''openai'', ''googleai'', ''gcp-vertex'', ''anthropic'', ''cohere'', ''ollama''}"
    by simp
  from h New_unsupported_provider [OF h] show ?thesis
    by (intro conjI)
qed

text \<open>
  C7. When the model returns no error, GenerateLLMResponse looks at the first choice
  only (the result is the one for the response with this choice alone), and a nil
  response, an empty list of choices and an empty content of the first choice each give
  the empty string and an error whose message begins with "emptyLLMResponse: "; the
  three messages are pairwise different.
\<close>

theorem GenerateLLMResponse_empty_response:
  "(model msgs \<lparr>WithJSONMode = True, WithTemperature = t\<rparr> = (None, None) \<longrightarrow>
      GenerateLLMResponse model t msgs =
        ([], Some (ErrorString ''emptyLLMResponse: response is nil''))) \<and>
   (model msgs \<lparr>WithJSONMode = True, WithTemperature = t\<rparr> = (Some response, None) \<and>
    Choices response = [] \<longrightarrow>
      GenerateLLMResponse model t msgs =
        ([], Some (ErrorString ''emptyLLMResponse: no choices available''))) \<and>
   (model msgs \<lparr>WithJSONMode = True, WithTemperature = t\<rparr> = (Some response, None) \<and>
    Choices response = choice # rest \<and> Content choice = [] \<longrightarrow>
      GenerateLLMResponse model t msgs =
        ([], Some (ErrorString ''emptyLLMResponse: content of first choice is empty''))) \<and>
   (model msgs \<lparr>WithJSONMode = True, WithTemperature = t\<rparr> = (Some response, None) \<and>
    Choices response = choice # rest \<longrightarrow>
      GenerateLLMResponse model t msgs =
        GenerateLLMResponse (\<lambda>m opts. (Some \<lparr>Choices = [choice]\<rparr>, None)) t msgs) \<and>
   distinct
     [Error lib (ErrorString ''emptyLLMResponse: response is nil''),
      Error lib (ErrorString ''emptyLLMResponse: no choices available''),
      Error lib (ErrorString ''emptyLLMResponse: content of first choice is empty'')] \<and>
   prefix ''emptyLLMResponse: '' (Error lib (ErrorString ''emptyLLMResponse: response is nil'')) \<and>
   prefix ''emptyLLMResponse: ''
     (Error lib (ErrorString ''emptyLLMResponse: no choices available'')) \<and>
   prefix ''emptyLLMResponse: ''
     (Error lib (ErrorString ''emptyLLMResponse: content of first choice is empty''))"
proof -
  let ?opts = "\<lparr>WithJSONMode = True, WithTemperature = t\<rparr>"
  have nil: "GenerateLLMResponse model t msgs =
      ([], Some (ErrorString ''emptyLLMResponse: response is nil''))"
    if "model msgs ?opts = (None, None)"
    using that by (simp add: GenerateLLMResponse_def)
  have none: "GenerateLLMResponse model t msgs =
      ([], Some (ErrorString ''emptyLLMResponse: no choices available''))"
    if "model msgs ?opts = (Some response, None)" "Choices response = []"
    using that by (simp add: GenerateLLMResponse_def)
  have empty: "GenerateLLMResponse model t msgs =
      ([], Some (ErrorString ''emptyLLMResponse: content of first choice is empty''))"
    if "model msgs ?opts = (Some response, None)" "Choices response = choice # rest"
      "Content choice = []"
    using that by (simp add: GenerateLLMResponse_def)
  have first: "GenerateLLMResponse model t msgs =
      GenerateLLMResponse (\<lambda>m opts. (Some \<lparr>Choices = [choice]\<rparr>, None)) t msgs"
    if "model msgs ?opts = (Some response, None)" "Choices response = choice # rest"
    using that by (simp add: GenerateLLMResponse_def)
  have texts: "distinct
     [Error lib (ErrorString ''emptyLLMResponse: response is nil''),
      Error lib (ErrorString ''emptyLLMResponse: no choices available''),
      Error lib (ErrorString ''emptyLLMResponse: content of first choice is empty'')]"
    by simp
  from nil none empty first texts show ?thesis by simp
qed

text \<open>
  The theorem at a model that returns nil, at one that returns no choice, and at one
  whose first choice is empty and whose second is not.
\<close>

theorem GenerateLLMResponse_empty_response_witness:
  "GenerateLLMResponse (\<lambda>m opts. (None, None)) 1 [] =
     ([], Some (ErrorString ''emptyLLMResponse: response is nil'')) \<and>
   GenerateLLMResponse (\<lambda>m opts. (Some \<lparr>Choices = []\<rparr>, None)) 1 [] =
     ([], Some (ErrorString ''emptyLLMResponse: no choices available'')) \<and>
   GenerateLLMResponse
       (\<lambda>m opts. (Some \<lparr>Choices = [\<lparr>Content = []\<rparr>, \<lparr>Content = ''{}''\<rparr>]\<rparr>, None)) 1 [] =
     ([], Some (ErrorString ''emptyLLMResponse: content of first choice is empty''))"
  using
    GenerateLLMResponse_empty_response [where model = "\<lambda>m opts. (None, None)"
      and msgs = "[]" and t = 1]
    GenerateLLMResponse_empty_response [where model = "\<lambda>m opts. (Some \<lparr>Choices = []\<rparr>, None)"
      and msgs = "[]" and t = 1 and response = "\<lparr>Choices = []\<rparr>"]
    GenerateLLMResponse_empty_response
      [where model = "\<lambda>m opts. (Some \<lparr>Choices = [\<lparr>Content = []\<rparr>, \<lparr>Content = ''{}''\<rparr>]\<rparr>, None)"
        and msgs = "[]" and t = 1
        and response = "\<lparr>Choices = [\<lparr>Content = []\<rparr>, \<lparr>Content = ''{}''\<rparr>]\<rparr>"
        and choice = "\<lparr>Content = []\<rparr>" and rest = "[\<lparr>Content = ''{}''\<rparr>]"]
  by simp

text \<open>
  C8. Whenever GenerateLLMResponse returns an error of the kind invalidJSONResponse, the
  string it returns with the error is the cleaned content of the first choice, the text
  that ValidateJSON has rejected with this error. In particular the content
  {"headers":{}} fails validation and is returned as it is.
\<close>

theorem GenerateLLMResponse_invalid_returns_cleaned:
  \<open>(GenerateLLMResponse model t msgs = (resp, Some (Errorf ''invalidJSONResponse: '' err)) \<longrightarrow>
      (\<exists>response choice rest.
         model msgs \<lparr>WithJSONMode = True, WithTemperature = t\<rparr> = (Some response, None) \<and>
         Choices response = choice # rest \<and>
         resp = cleanResponse (Content choice) \<and> ValidateJSON resp = Some err)) \<and>
   GenerateLLMResponse
       (\<lambda>m opts. (Some \<lparr>Choices = [\<lparr>Content = ''{"headers":{}}''\<rparr>]\<rparr>, None)) t msgs =
     (''{"headers":{}}'',
      Some (Errorf ''invalidJSONResponse: ''
             (Errorf ''validation error: '' (ValidationErrors [''Body'']))))\<close>
proof -
  have c: \<open>cleanResponse ''{"headers":{}}'' = ''{"headers":{}}''\<close>
    by code_simp
  have v: \<open>ValidateJSON ''{"headers":{}}'' =
      Some (Errorf ''validation error: '' (ValidationErrors [''Body'']))\<close>
    by code_simp
  have 1: "\<exists>response choice rest.
         model msgs \<lparr>WithJSONMode = True, WithTemperature = t\<rparr> = (Some response, None) \<and>
         Choices response = choice # rest \<and>
         resp = cleanResponse (Content choice) \<and> ValidateJSON resp = Some err"
    if "GenerateLLMResponse model t msgs = (resp, Some (Errorf ''invalidJSONResponse: '' err))"
    using that
    by (auto simp: GenerateLLMResponse_def Let_def
        split: prod.splits option.splits list.splits if_splits)
  have 2: \<open>GenerateLLMResponse
       (\<lambda>m opts. (Some \<lparr>Choices = [\<lparr>Content = ''{"headers":{}}''\<rparr>]\<rparr>, None)) t msgs =
     (''{"headers":{}}'',
      Some (Errorf ''invalidJSONResponse: ''
             (Errorf ''validation error: '' (ValidationErrors [''Body'']))))\<close>
    using c v
    by (simp add: GenerateLLMResponse_content
        [of _ _ _ \<open>\<lparr>Choices = [\<lparr>Content = ''{"headers":{}}''\<rparr>]\<rparr>\<close> \<open>\<lparr>Content = ''{"headers":{}}''\<rparr>\<close> "[]"])
  from 1 2 show ?thesis by blast
qed

text \<open>The theorem at a model whose only choice is a JSON text without fields.\<close>

theorem GenerateLLMResponse_invalid_returns_cleaned_witness:
  \<open>GenerateLLMResponse (\<lambda>m opts. (Some \<lparr>Choices = [\<lparr>Content = '' {} ''\<rparr>]\<rparr>, None)) 1 [] =
     (''{}'',
      Some (Errorf ''invalidJSONResponse: ''
             (Errorf ''validation error: '' (ValidationErrors [''Headers'', ''Body''])))) \<and>
   (\<exists>response choice rest.
      (Some \<lparr>Choices = [\<lparr>Content = '' {} ''\<rparr>]\<rparr>, None) = (Some response, None) \<and>
      Choices response = choice # rest \<and>
      ''{}'' = cleanResponse (Content choice) \<and>
      ValidateJSON ''{}'' =
        Some (Errorf ''validation error: '' (ValidationErrors [''Headers'', ''Body''])))\<close>
proof -
  have c: "cleanResponse '' {} '' = ''{}''"
    by code_simp
  have v: "ValidateJSON ''{}'' =
      Some (Errorf ''validation error: '' (ValidationErrors [''Headers'', ''Body'']))"
    by code_simp
  have h: "GenerateLLMResponse
      (\<lambda>m opts. (Some \<lparr>Choices = [\<lparr>Content = '' {} ''\<rparr>]\<rparr>, None)) 1 [] =
     (''{}'',
      Some (Errorf ''invalidJSONResponse: ''
             (Errorf ''validation error: '' (ValidationErrors [''Headers'', ''Body'']))))"
    using c v by (simp add: GenerateLLMResponse_def)
  from GenerateLLMResponse_invalid_returns_cleaned
      [of "\<lambda>m opts. (Some \<lparr>Choices = [\<lparr>Content = '' {} ''\<rparr>]\<rparr>, None)" 1 "[]" "''{}''"
        "Errorf ''validation error: '' (ValidationErrors [''Headers'', ''Body''])"]
  have "\<exists>response choice rest.
      (Some \<lparr>Choices = [\<lparr>Content = '' {} ''\<rparr>]\<rparr>, None) = (Some response, None) \<and>
      Choices response = choice # rest \<and>
      ''{}'' = cleanResponse (Content choice) \<and>
      ValidateJSON ''{}'' =
        Some (Errorf ''validation error: '' (ValidationErrors [''Headers'', ''Body'']))"
    using h by blast
  with h show ?thesis by (intro conjI)
qed

text \<open>
  C9. For the raw text that is a fence tagged json, a newline, the document
  {"headers":{"a":"b"},"body":"x"}, a newline and a fence, cleaning yields exactly the
  document, and validation of the document succeeds.
\<close>

theorem cleanResponse_ValidateJSON_example:
  \<open>cleanResponse (''```json'' @ [CHR 0x0A] @ ''{"headers":{"a":"b"},"body":"x"}'' @
       [CHR 0x0A] @ ''```'') = ''{"headers":{"a":"b"},"body":"x"}'' \<and>
   ValidateJSON ''{"headers":{"a":"b"},"body":"x"}'' = None\<close>
proof -
  have \<open>cleanResponse (''```json'' @ [CHR 0x0A] @ ''{"headers":{"a":"b"},"body":"x"}'' @
       [CHR 0x0A] @ ''```'') = ''{"headers":{"a":"b"},"body":"x"}''\<close>
    by code_simp
  moreover have \<open>ValidateJSON ''{"headers":{"a":"b"},"body":"x"}'' = None\<close>
    by code_simp
  ultimately show ?thesis by (rule conjI)
qed

text \<open>
  C10. The cleaning step is idempotent: cleaning the result of cleaning changes nothing.
\<close>

theorem cleanResponse_idempotent: "cleanResponse (cleanResponse s) = cleanResponse s"
proof -
  have "ReplaceAllString True (cleanResponse s) = cleanResponse s"
    by (rule ReplaceAllString_id) (rule cleanResponse_no_fence)
  then have "cleanResponse (cleanResponse s) = TrimSpace (cleanResponse s)"
    by (simp add: cleanResponse_def [of "cleanResponse s"])
  also have "\<dots> = cleanResponse s"
    by (simp add: cleanResponse_def TrimSpace_idem)
  finally show ?thesis .
qed

text \<open>The theorem at a fenced text.\<close>

theorem cleanResponse_idempotent_witness:
  "cleanResponse (cleanResponse ''```json {} ```'') = cleanResponse ''```json {} ```''"
  by (rule cleanResponse_idempotent)

end
